theory Spec2Isabelle
  imports Complex_Main "HOL-Library.Multiset"
begin

section \<open>Python values used by the program\<close>

text \<open>
  A Python \<open>str\<close> is a sequence of Unicode code points, so a string is modelled as a list
  of integers (the en dash is the single code point 8211, the em dash 8212). \<open>str\<close> embeds
  an ASCII literal. Amounts of money are Python floats: a float is a finite number, one of
  the two infinities, or NaN. Finite numbers are exact rationals and arithmetic on them is
  exact, so binary rounding and the overflow of finite amounts are outside the model; the
  infinities and NaN follow the rules of IEEE 754 arithmetic.
\<close>

type_synonym pystr = "int list"

definition str :: "string \<Rightarrow> pystr" where
  "str s = map of_char s"

text \<open>The characters that \<open>str.split()\<close> and \<open>str.strip()\<close> treat as whitespace.\<close>

definition is_space :: "int \<Rightarrow> bool" where
  "is_space c \<longleftrightarrow>
     (9 \<le> c \<and> c \<le> 13) \<or> (28 \<le> c \<and> c \<le> 32) \<or> c = 133 \<or> c = 160 \<or> c = 5760 \<or>
     (8192 \<le> c \<and> c \<le> 8202) \<or> c = 8232 \<or> c = 8233 \<or> c = 8239 \<or> c = 8287 \<or>
     c = 12288"

text \<open>
  \<open>str.lower()\<close>, on the letters A to Z. The case mapping of letters outside ASCII is not
  modelled: such code points are left as they are.
\<close>

definition lower_char :: "int \<Rightarrow> int" where
  "lower_char c = (if 65 \<le> c \<and> c \<le> 90 then c + 32 else c)"

definition lower :: "pystr \<Rightarrow> pystr" where
  "lower s = map lower_char s"

fun startswith :: "pystr \<Rightarrow> pystr \<Rightarrow> bool" where
  "startswith s [] = True"
| "startswith [] (p # ps) = False"
| "startswith (c # cs) (p # ps) = (c = p \<and> startswith cs ps)"

text \<open>\<open>is_in sub s\<close> is Python's \<open>sub in s\<close> on strings.\<close>

fun is_in :: "pystr \<Rightarrow> pystr \<Rightarrow> bool" where
  "is_in sub [] = (sub = [])"
| "is_in sub (c # cs) = (startswith (c # cs) sub \<or> is_in sub cs)"

text \<open>\<open>s.strip()\<close>: leading and trailing whitespace removed.\<close>

definition strip :: "pystr \<Rightarrow> pystr" where
  "strip s = rev (dropWhile is_space (rev (dropWhile is_space s)))"

text \<open>
  \<open>s.split()\<close>: the maximal runs of characters that are not whitespace, in order.
  \<open>split_from w s\<close> carries the word \<open>w\<close> read so far.
\<close>

fun split_from :: "pystr \<Rightarrow> pystr \<Rightarrow> pystr list" where
  "split_from w [] = (if w = [] then [] else [w])"
| "split_from w (c # cs) =
     (if is_space c then (if w = [] then split_from [] cs else w # split_from [] cs)
      else split_from (w @ [c]) cs)"

definition split :: "pystr \<Rightarrow> pystr list" where
  "split s = split_from [] s"

text \<open>\<open>sep.join(ws)\<close>.\<close>

fun join :: "pystr \<Rightarrow> pystr list \<Rightarrow> pystr" where
  "join sep [] = []"
| "join sep [w] = w"
| "join sep (w # v # ws) = w @ sep @ join sep (v # ws)"

text \<open>
  \<open>s.replace(old, new)\<close> for a non-empty \<open>old\<close>: the occurrences of \<open>old\<close> are found
  from left to right without overlap. After a match, \<open>replace_from\<close> skips the rest of the
  matched text (\<open>skip\<close> characters).
\<close>

fun replace_from :: "nat \<Rightarrow> pystr \<Rightarrow> pystr \<Rightarrow> pystr \<Rightarrow> pystr" where
  "replace_from skip old new [] = []"
| "replace_from (Suc k) old new (c # cs) = replace_from k old new cs"
| "replace_from 0 old new (c # cs) =
     (if startswith (c # cs) old then new @ replace_from (length old - 1) old new cs
      else c # replace_from 0 old new cs)"

definition replace :: "pystr \<Rightarrow> pystr \<Rightarrow> pystr \<Rightarrow> pystr" where
  "replace s old new = replace_from 0 old new s"

datatype pyfloat = Finite rat | PlusInfinity | MinusInfinity | NaN

text \<open>\<open>math.isfinite(x)\<close>\<close>

fun is_finite :: "pyfloat \<Rightarrow> bool" where
  "is_finite (Finite x) = True"
| "is_finite PlusInfinity = False"
| "is_finite MinusInfinity = False"
| "is_finite NaN = False"

text \<open>\<open>-x\<close>, \<open>x + y\<close>, \<open>x - y\<close> and \<open>x * y\<close> on floats.\<close>

fun float_neg :: "pyfloat \<Rightarrow> pyfloat" where
  "float_neg (Finite x) = Finite (- x)"
| "float_neg PlusInfinity = MinusInfinity"
| "float_neg MinusInfinity = PlusInfinity"
| "float_neg NaN = NaN"

fun float_add :: "pyfloat \<Rightarrow> pyfloat \<Rightarrow> pyfloat" where
  "float_add (Finite x) (Finite y) = Finite (x + y)"
| "float_add NaN y = NaN"
| "float_add x NaN = NaN"
| "float_add PlusInfinity MinusInfinity = NaN"
| "float_add MinusInfinity PlusInfinity = NaN"
| "float_add PlusInfinity y = PlusInfinity"
| "float_add x PlusInfinity = PlusInfinity"
| "float_add MinusInfinity y = MinusInfinity"
| "float_add x MinusInfinity = MinusInfinity"

definition float_sub :: "pyfloat \<Rightarrow> pyfloat \<Rightarrow> pyfloat" where
  "float_sub x y = float_add x (float_neg y)"

fun float_mul :: "pyfloat \<Rightarrow> pyfloat \<Rightarrow> pyfloat" where
  "float_mul (Finite x) (Finite y) = Finite (x * y)"
| "float_mul NaN y = NaN"
| "float_mul x NaN = NaN"
| "float_mul (Finite x) y = (if x = 0 then NaN else if 0 < x then y else float_neg y)"
| "float_mul x (Finite y) = (if y = 0 then NaN else if 0 < y then x else float_neg x)"
| "float_mul PlusInfinity y = y"
| "float_mul MinusInfinity y = float_neg y"

text \<open>
  \<open>x / d\<close> for a finite divisor \<open>d\<close> greater than 0 (the program divides by \<open>50.0\<close>
  only).
\<close>

fun float_div_by :: "pyfloat \<Rightarrow> rat \<Rightarrow> pyfloat" where
  "float_div_by (Finite x) d = Finite (x / d)"
| "float_div_by PlusInfinity d = PlusInfinity"
| "float_div_by MinusInfinity d = MinusInfinity"
| "float_div_by NaN d = NaN"

text \<open>The nearest integer to a rational, a tie going to the even neighbour.\<close>

definition round_half_even :: "rat \<Rightarrow> int" where
  "round_half_even x =
     (let f = \<lfloor>x\<rfloor>; d = x - of_int f
      in if d < 1 / 2 then f else if 1 / 2 < d then f + 1 else if even f then f else f + 1)"

text \<open>
  Indexing a dictionary, \<open>d[key]\<close>, raises \<open>KeyError\<close> when the key is absent;
  \<open>d.get(key, default)\<close> does not. The built-in \<open>round\<close> raises \<open>OverflowError\<close> on
  an infinity and \<open>ValueError\<close> on NaN.
\<close>

datatype error = KeyError | OverflowError | ValueError

text \<open>
  The built-in \<open>round(x)\<close> of one float: the nearest integer, a tie going to the even
  neighbour; an infinity and NaN cannot be converted to an integer.
\<close>

fun py_round :: "pyfloat \<Rightarrow> error + int" where
  "py_round (Finite x) = Inr (round_half_even x)"
| "py_round PlusInfinity = Inl OverflowError"
| "py_round MinusInfinity = Inl OverflowError"
| "py_round NaN = Inl ValueError"

definition getitem :: "('k \<rightharpoonup> 'v) \<Rightarrow> 'k \<Rightarrow> error + 'v" where
  "getitem d key = (case d key of None \<Rightarrow> Inl KeyError | Some v \<Rightarrow> Inr v)"

definition get_default :: "('k \<rightharpoonup> 'v) \<Rightarrow> 'k \<Rightarrow> 'v \<Rightarrow> 'v" where
  "get_default d key dflt = (case d key of None \<Rightarrow> dflt | Some v \<Rightarrow> v)"

section \<open>Pricing configuration (\<open>config/pricing.py\<close>)\<close>

text \<open>
  The price tables are read from the deployment's secrets store on every call. The store
  is outside the program, so it is a parameter: \<open>None\<close> stands for a store whose reading
  raises, \<open>Some s\<close> for the sections read. A value is a number (\<open>inf\<close> and \<open>nan\<close>
  are numbers of the configuration format), or something that \<open>float()\<close> rejects; an entry of an add-on section is a dictionary with an optional
  label and an optional price, or not a dictionary at all.
\<close>

datatype secret_value = Number pyfloat | NotNumber

datatype secret_entry = NotDict | Dict "pystr option" "secret_value option"

record secrets =
  booth_prices_section :: "pystr \<rightharpoonup> secret_value"
  add_ons_2025_section :: "(pystr \<times> secret_entry) list"
  add_ons_2026_section :: "(pystr \<times> secret_entry) list"

text \<open>\<open>float(v)\<close>; \<open>None\<close> when it raises.\<close>

fun float_of :: "secret_value \<Rightarrow> pyfloat option" where
  "float_of (Number x) = Some x"
| "float_of NotNumber = None"

definition fallback_booth_prices :: "(pystr \<times> pyfloat) list" where
  "fallback_booth_prices =
     [(str ''standard_1d'', Finite 5000),
      (str ''standard_2d'', Finite 7500),
      (str ''platinum'', Finite 10000),
      (str ''best_of'', Finite 10000),
      (str ''premier'', Finite 15000)]"

definition booth_price_from ::
  "(pystr \<rightharpoonup> secret_value) \<Rightarrow> pystr \<Rightarrow> pyfloat \<Rightarrow> pyfloat option" where
  "booth_price_from prices key dflt = float_of (get_default prices key (Number dflt))"

text \<open>
  \<open>get_booth_prices\<close>: the five tiers, each from the secrets or its default; the fallback
  table when anything in the \<open>try\<close> block raises.
\<close>

definition get_booth_prices :: "secrets option \<Rightarrow> (pystr \<rightharpoonup> pyfloat)" where
  "get_booth_prices st =
     (case st of
        None \<Rightarrow> map_of fallback_booth_prices
      | Some s \<Rightarrow>
          (let prices = booth_prices_section s
           in case (booth_price_from prices (str ''standard_1d'') (Finite 5000),
                    booth_price_from prices (str ''standard_2d'') (Finite 7500),
                    booth_price_from prices (str ''platinum'') (Finite 10000),
                    booth_price_from prices (str ''best_of'') (Finite 10000),
                    booth_price_from prices (str ''premier'') (Finite 15000)) of
                (Some p1, Some p2, Some p3, Some p4, Some p5) \<Rightarrow>
                  map_of [(str ''standard_1d'', p1),
                          (str ''standard_2d'', p2),
                          (str ''platinum'', p3),
                          (str ''best_of'', p4),
                          (str ''premier'', p5)]
              | _ \<Rightarrow> map_of fallback_booth_prices))"

text \<open>An entry of an add-on table: \<open>{"label": ..., "price": ...}\<close>.\<close>

record add_on_entry =
  label :: pystr
  price :: pyfloat

definition fallback_add_ons_2025 :: "(pystr \<times> add_on_entry) list" where
  "fallback_add_ons_2025 =
     [(str ''program_ad_full'', \<lparr>label = str ''Program Guide Full Page Ad'', price = Finite 2000\<rparr>),
      (str ''charging_stations'', \<lparr>label = str ''In-Person Charging Station'', price = Finite 2000\<rparr>),
      (str ''wifi_sponsorship'', \<lparr>label = str ''Wi-Fi Network Sponsorship'', price = Finite 3000\<rparr>),
      (str ''platform_banner'', \<lparr>label = str ''Platform Banner Ad'', price = Finite 2000\<rparr>),
      (str ''email_banner'', \<lparr>label = str ''Email Banner Ad'', price = Finite 2500\<rparr>),
      (str ''registration_banner'', \<lparr>label = str ''Registration Banner Ad'', price = Finite 2000\<rparr>),
      (str ''networking_reception'',
         \<lparr>label = str ''In-Person Networking Reception'', price = Finite 3500\<rparr>),
      (str ''networking_activity'',
         \<lparr>label = str ''Networking Activity / Excursion'', price = Finite 3500\<rparr>),
      (str ''advisory_board'', \<lparr>label = str ''Advisory Board (3-hour)'', price = Finite 30000\<rparr>),
      (str ''non_cme_session'', \<lparr>label = str ''Non-CME/CE Session (45 min)'', price = Finite 50000\<rparr>)]"

definition fallback_add_ons_2026 :: "(pystr \<times> add_on_entry) list" where
  "fallback_add_ons_2026 =
     [(str ''program_ad_full'', \<lparr>label = str ''Program Guide Full Page Ad'', price = Finite 2000\<rparr>),
      (str ''charging_stations'', \<lparr>label = str ''In-Person Charging Station'', price = Finite 3000\<rparr>),
      (str ''wifi_sponsorship'', \<lparr>label = str ''Wi-Fi Network Sponsorship'', price = Finite 3000\<rparr>),
      (str ''platform_banner'', \<lparr>label = str ''Platform Banner Ad'', price = Finite 2000\<rparr>),
      (str ''email_banner'', \<lparr>label = str ''Email Banner Ad'', price = Finite 2500\<rparr>),
      (str ''registration_banner'', \<lparr>label = str ''Registration Banner Ad'', price = Finite 2000\<rparr>),
      (str ''networking_reception'',
         \<lparr>label = str ''In-Person Networking Reception'', price = Finite 3500\<rparr>),
      (str ''networking_activity'',
         \<lparr>label = str ''Networking Activity / Excursion'', price = Finite 3500\<rparr>),
      (str ''advisory_board'', \<lparr>label = str ''Advisory Board (3-hour)'', price = Finite 30000\<rparr>),
      (str ''non_cme_session'', \<lparr>label = str ''Non-CME/CE Session (45 min)'', price = Finite 50000\<rparr>)]"

text \<open>
  The loop of \<open>get_add_ons_2025\<close> and \<open>get_add_ons_2026\<close> over the items of a section:
  entries that are not dictionaries are skipped, a missing label is the empty string, a
  missing price is 0. \<open>None\<close> when \<open>float()\<close> raises on some price.
\<close>

fun convert_add_ons :: "(pystr \<times> secret_entry) list \<Rightarrow> (pystr \<times> add_on_entry) list option" where
  "convert_add_ons [] = Some []"
| "convert_add_ons ((key, NotDict) # items) = convert_add_ons items"
| "convert_add_ons ((key, Dict lbl pr) # items) =
     (case float_of (case pr of None \<Rightarrow> Number (Finite 0) | Some v \<Rightarrow> v) of
        None \<Rightarrow> None
      | Some p \<Rightarrow>
          (case convert_add_ons items of
             None \<Rightarrow> None
           | Some result \<Rightarrow>
               Some ((key, \<lparr>label = (case lbl of None \<Rightarrow> [] | Some l \<Rightarrow> l), price = p\<rparr>)
                     # result)))"

definition get_add_ons_2025 :: "secrets option \<Rightarrow> (pystr \<rightharpoonup> add_on_entry)" where
  "get_add_ons_2025 st =
     (case st of
        None \<Rightarrow> map_of fallback_add_ons_2025
      | Some s \<Rightarrow>
          (case convert_add_ons (add_ons_2025_section s) of
             None \<Rightarrow> map_of fallback_add_ons_2025
           | Some result \<Rightarrow>
               if result = [] then map_of fallback_add_ons_2025 else map_of result))"

definition get_add_ons_2026 :: "secrets option \<Rightarrow> (pystr \<rightharpoonup> add_on_entry)" where
  "get_add_ons_2026 st =
     (case st of
        None \<Rightarrow> map_of fallback_add_ons_2026
      | Some s \<Rightarrow>
          (case convert_add_ons (add_ons_2026_section s) of
             None \<Rightarrow> map_of fallback_add_ons_2026
           | Some result \<Rightarrow>
               if result = [] then map_of fallback_add_ons_2026 else map_of result))"

definition get_add_ons_pricing :: "secrets option \<Rightarrow> int \<Rightarrow> (pystr \<rightharpoonup> add_on_entry)" where
  "get_add_ons_pricing st year =
     (if year = 2026 then get_add_ons_2026 st else get_add_ons_2025 st)"

record discount_option =
  discount_label :: pystr
  multiplier :: "pyfloat option"

definition DISCOUNT_OPTIONS :: "(pystr \<times> discount_option) list" where
  "DISCOUNT_OPTIONS =
     [(str ''none'', \<lparr>discount_label = str ''No Discount (0%)'', multiplier = Some (Finite 1)\<rparr>),
      (str ''minus_10'', \<lparr>discount_label = str ''10% Discount'', multiplier = Some (Finite (9 / 10))\<rparr>),
      (str ''minus_15'', \<lparr>discount_label = str ''15% Discount'', multiplier = Some (Finite (85 / 100))\<rparr>),
      (str ''minus_20'', \<lparr>discount_label = str ''20% Discount'', multiplier = Some (Finite (8 / 10))\<rparr>),
      (str ''custom'', \<lparr>discount_label = str ''Custom Total Override'', multiplier = None\<rparr>)]"

text \<open>\<open>DISCOUNT_OPTIONS.get(discount_key, {}).get("multiplier")\<close>\<close>

definition get_discount_multiplier :: "pystr \<Rightarrow> pyfloat option" where
  "get_discount_multiplier discount_key =
     (case map_of DISCOUNT_OPTIONS discount_key of
        None \<Rightarrow> None
      | Some opt \<Rightarrow> multiplier opt)"

text \<open>
  \<open>round(amount / 50.0) * 50.0\<close>: the error of \<open>round\<close> leaves the function; the
  integer it returns is converted to a float for the product.
\<close>

definition round_nearest_50 :: "pyfloat \<Rightarrow> error + pyfloat" where
  "round_nearest_50 amount =
     (case py_round (float_div_by amount 50) of
        Inl e \<Rightarrow> Inl e
      | Inr n \<Rightarrow> Inr (float_mul (Finite (of_int n)) (Finite 50)))"

section \<open>The pricing engine (\<open>core/pricing_calc.py\<close>)\<close>

record pricing_calculation =
  booth_tier :: pystr
  booth_price :: pyfloat
  add_on_keys :: "pystr list"
  add_ons_total :: pyfloat
  subtotal :: pyfloat
  discount_key :: pystr
  discount_multiplier :: pyfloat
  discount_amount :: pyfloat
  final_total :: pyfloat
  rounded_total :: pyfloat

text \<open>
  \<open>sum(add_ons_pricing[key]["price"] for key in add_on_keys if key in add_ons_pricing)\<close>:
  the running total starts at 0 and takes the keys in the order of the list.
\<close>

fun sum_add_ons ::
  "(pystr \<rightharpoonup> add_on_entry) \<Rightarrow> pyfloat \<Rightarrow> pystr list \<Rightarrow> error + pyfloat" where
  "sum_add_ons add_ons_pricing running [] = Inr running"
| "sum_add_ons add_ons_pricing running (key # keys) =
     (if add_ons_pricing key \<noteq> None then
        (case getitem add_ons_pricing key of
           Inl e \<Rightarrow> Inl e
         | Inr entry \<Rightarrow> sum_add_ons add_ons_pricing (float_add running (price entry)) keys)
      else sum_add_ons add_ons_pricing running keys)"

text \<open>\<open>x or 1.0\<close> on an optional float: \<open>None\<close> and \<open>0.0\<close> are falsy.\<close>

definition or_one :: "pyfloat option \<Rightarrow> pyfloat" where
  "or_one x = (case x of None \<Rightarrow> Finite 1 | Some m \<Rightarrow> if m = Finite 0 then Finite 1 else m)"

definition calculate_pricing ::
  "secrets option \<Rightarrow> pystr \<Rightarrow> pystr list \<Rightarrow> int \<Rightarrow> pystr \<Rightarrow> pyfloat option
     \<Rightarrow> error + pricing_calculation" where
  "calculate_pricing st tier keys event_year dkey custom_total =
     (let booth_prices = get_booth_prices st;
          add_ons_pricing = get_add_ons_pricing st event_year;
          bprice = (if tier = str ''(no booth)'' then Finite 0
                    else get_default booth_prices tier (Finite 0))
      in case sum_add_ons add_ons_pricing (Finite 0) keys of
           Inl e \<Rightarrow> Inl e
         | Inr addons \<Rightarrow>
             (let sub = float_add bprice addons;
                  (final, mult, amount) =
                    (case (if dkey = str ''custom'' then custom_total else None) of
                       Some custom \<Rightarrow> (custom, Finite 0, float_sub sub custom)
                     | None \<Rightarrow>
                         (let m = or_one (get_discount_multiplier dkey);
                              discounted = float_mul sub m
                          in (discounted, m, float_sub sub discounted)))
              in case round_nearest_50 final of
                   Inl e \<Rightarrow> Inl e
                 | Inr rounded \<Rightarrow>
                     Inr \<lparr>booth_tier = tier,
                          booth_price = bprice,
                          add_on_keys = keys,
                          add_ons_total = addons,
                          subtotal = sub,
                          discount_key = dkey,
                          discount_multiplier = mult,
                          discount_amount = amount,
                          final_total = final,
                          rounded_total = rounded\<rparr>))"

text \<open>
  The side condition of the results on amounts: every price of the booth table and of the
  add-on table of the year is a finite number.
\<close>

abbreviation finite_prices :: "secrets option \<Rightarrow> int \<Rightarrow> bool" where
  "finite_prices st year \<equiv>
     (\<forall>key p. get_booth_prices st key = Some p \<longrightarrow> is_finite p) \<and>
     (\<forall>key entry. get_add_ons_pricing st year key = Some entry \<longrightarrow> is_finite (price entry))"

section \<open>The event catalog (\<open>config/events.py\<close>)\<close>

record event =
  meeting_name :: pystr
  meeting_date_long :: pystr
  venue :: pystr
  city_state :: pystr
  default_tier :: pystr
  expected_attendance :: "int option"

definition EVENTS_2025 :: "event list" where
  "EVENTS_2025 = [
    \<lparr>meeting_name = str ''2025 Astera Cancer Care Annual Retreat'',
     meeting_date_long = str ''September 27, 2025'',
     venue = str ''Ocean Place Resort and Spa'',
     city_state = str ''Long Branch, NJ'',
     default_tier = str ''standard_1d'',
     expected_attendance = None\<rparr>,
    \<lparr>meeting_name = str ''2025 Cancer Updates GU and Lung, Memphis, TN'',
     meeting_date_long = str ''September 30, 2025'',
     venue = str ''Hilton Memphis'',
     city_state = str ''Memphis, TN'',
     default_tier = str ''standard_1d'',
     expected_attendance = None\<rparr>,
    \<lparr>meeting_name = str ''2025 West Oncology APP Dinner'',
     meeting_date_long = str ''October 9, 2025'',
     venue = str ''Hilton Memphis'',
     city_state = str ''Memphis, TN'',
     default_tier = str ''standard_1d'',
     expected_attendance = None\<rparr>,
    \<lparr>meeting_name = str ''2025 Empower (Patient Meeting)'',
     meeting_date_long = str ''October 11, 2025'',
     venue = str ''Farmer'' @ [39] @ str ''s Table'',
     city_state = str ''Boca Raton, FL'',
     default_tier = str ''standard_1d'',
     expected_attendance = None\<rparr>,
    \<lparr>meeting_name = str ''2025 Northwell Health Second Annual Liver Cancer Symposium'',
     meeting_date_long = str ''October 17, 2025'',
     venue = str ''The Garden City Hotel'',
     city_state = str ''Garden City, NY'',
     default_tier = str ''standard_1d'',
     expected_attendance = None\<rparr>,
    \<lparr>meeting_name = str ''2025 Cancer Updates GI and Breast, Boston, MA'',
     meeting_date_long = str ''October 30, 2025'',
     venue = str ''Battery Wharf Hotel Boston Waterfront'',
     city_state = str ''Boston, MA'',
     default_tier = str ''standard_1d'',
     expected_attendance = None\<rparr>,
    \<lparr>meeting_name = str ''2025 ESMO USA West'',
     meeting_date_long = str ''November 1'' @ [8211] @ str ''2, 2025'',
     venue = str ''The Antlers'',
     city_state = str ''Colorado Springs, CO'',
     default_tier = str ''standard_2d'',
     expected_attendance = None\<rparr>,
    \<lparr>meeting_name = str ''2025 ESMO USA East'',
     meeting_date_long = str ''November 1'' @ [8211] @ str ''2, 2025'',
     venue = str ''The Ritz-Carlton Orlando'',
     city_state = str ''Orlando, FL'',
     default_tier = str ''standard_2d'',
     expected_attendance = None\<rparr>,
    \<lparr>meeting_name = str ''2025 Northwell Health Multidisciplinary Head and Neck Cancer Symposium'',
     meeting_date_long = str ''November 1, 2025'',
     venue = str ''The Garden City Hotel'',
     city_state = str ''Garden City, NY'',
     default_tier = str ''standard_1d'',
     expected_attendance = None\<rparr>,
    \<lparr>meeting_name = str ''2025 Cancer Updates Heme and GU, Denver, CO'',
     meeting_date_long = str ''December 4, 2025'',
     venue = str ''Denver Marriott Westminster'',
     city_state = str ''Denver, CO'',
     default_tier = str ''standard_1d'',
     expected_attendance = None\<rparr>,
    \<lparr>meeting_name = str ''2025 Northwell Best of Practice Impacting Science'',
     meeting_date_long = str ''December 5, 2025'',
     venue = str ''The Garden City Hotel'',
     city_state = str ''Garden City, NY'',
     default_tier = str ''standard_1d'',
     expected_attendance = None\<rparr>,
    \<lparr>meeting_name = str ''2025 Oncology Update Conference presented by High Plains Oncology Professionals-HPOP'',
     meeting_date_long = str ''December 6, 2025'',
     venue = str ''Fort Collins Marriott'',
     city_state = str ''Fort Collins, CO'',
     default_tier = str ''standard_1d'',
     expected_attendance = None\<rparr>,
    \<lparr>meeting_name = str ''2025 (Northwell) 2nd Annual New York Pancreatic Cancer Consortium'',
     meeting_date_long = str ''December 12, 2025'',
     venue = str ''Martinique New York on Broadway'',
     city_state = str ''Manhattan, NY'',
     default_tier = str ''platinum'',
     expected_attendance = None\<rparr>]"

definition EVENTS_2026 :: "event list" where
  "EVENTS_2026 = [
    \<lparr>meeting_name = str ''2026 Best of Breast Conference'',
     meeting_date_long = str ''January 17-18, 2026'',
     venue = str ''Beach House Ft. Lauderdale'',
     city_state = str ''Fort Lauderdale, FL'',
     default_tier = str ''best_of'',
     expected_attendance = Some 50\<rparr>,
    \<lparr>meeting_name = str ''2026 Cancer Updates GI and Breast, Princeton, NJ'',
     meeting_date_long = str ''January 22, 2026'',
     venue = str ''Princeton Marriott at Forrestal'',
     city_state = str ''Princeton, NJ'',
     default_tier = str ''standard_1d'',
     expected_attendance = Some 30\<rparr>,
    \<lparr>meeting_name = str ''2026 Northwell Cancer Institute Frontiers in Cancer Scientific Symposium'',
     meeting_date_long = str ''January 28, 2026'',
     venue = str ''Carnegie Hall'',
     city_state = str ''Manhattan, NYC'',
     default_tier = str ''standard_1d'',
     expected_attendance = None\<rparr>,
    \<lparr>meeting_name = str ''2026 West Oncology Conference'',
     meeting_date_long = str ''January 31-February 1, 2026'',
     venue = str ''Hilton Memphis'',
     city_state = str ''Memphis, TN'',
     default_tier = str ''standard_2d'',
     expected_attendance = Some 50\<rparr>,
    \<lparr>meeting_name = str ''2026 Best of Hematology Conference'',
     meeting_date_long = str ''February 7-8, 2026'',
     venue = str ''The Hythe'',
     city_state = str ''Vail, CO'',
     default_tier = str ''best_of'',
     expected_attendance = Some 30\<rparr>,
    \<lparr>meeting_name = str ''2026 ASCO Direct GI'',
     meeting_date_long = str ''February 7-8, 2026'',
     venue = str ''The Rittenhouse'',
     city_state = str ''Philadelphia, PA'',
     default_tier = str ''standard_2d'',
     expected_attendance = Some 40\<rparr>,
    \<lparr>meeting_name = str ''2026 University of Kansas Cancer Center Breast Cancer Year in Review'',
     meeting_date_long = str ''February 21, 2026'',
     venue = str ''Sheraton Overland Park Hotel at the Convention Center'',
     city_state = str ''Kansas City, MO'',
     default_tier = str ''standard_1d'',
     expected_attendance = Some 75\<rparr>,
    \<lparr>meeting_name = str ''2026 Cancer Updates GI and Breast, Dallas, TX'',
     meeting_date_long = str ''February 26, 2026'',
     venue = str ''The Highland Dallas'',
     city_state = str ''Dallas, TX'',
     default_tier = str ''standard_1d'',
     expected_attendance = Some 30\<rparr>,
    \<lparr>meeting_name = str ''2026 Cancer Updates GI and Breast, Nashville, TN'',
     meeting_date_long = str ''March 5, 2026'',
     venue = str ''Loews Vanderbilt Hotel'',
     city_state = str ''Nashville, TN'',
     default_tier = str ''standard_1d'',
     expected_attendance = Some 30\<rparr>,
    \<lparr>meeting_name = str ''2026 Cancer Updates GI and Lung, Denver, CO'',
     meeting_date_long = str ''March 12, 2026'',
     venue = str ''Denver Marriott Westminster'',
     city_state = str ''Denver, CO'',
     default_tier = str ''standard_1d'',
     expected_attendance = Some 30\<rparr>,
    \<lparr>meeting_name = str ''2026 ASCO Direct GU'',
     meeting_date_long = str ''March 14-15, 2026'',
     venue = str ''The Hyatt'',
     city_state = str ''Boston, MA'',
     default_tier = str ''standard_2d'',
     expected_attendance = Some 40\<rparr>,
    \<lparr>meeting_name = str ''2026 Cancer Updates GI and Breast, Houston'',
     meeting_date_long = str ''April 9, 2026'',
     venue = str ''The Blossom Hotel Houston'',
     city_state = str ''Houston, TX'',
     default_tier = str ''standard_1d'',
     expected_attendance = Some 30\<rparr>,
    \<lparr>meeting_name = str ''2026 Oncology Clinical Updates - Review and Renew Sedona'',
     meeting_date_long = str ''April 11-12, 2026'',
     venue = str ''Hilton Sedona Resort at Bell Rock'',
     city_state = str ''Sedona, AZ'',
     default_tier = str ''standard_2d'',
     expected_attendance = Some 30\<rparr>,
    \<lparr>meeting_name = str ''ESMO USA in Focus 2026: Lung Cancer and Sarcomas - With John Trent and Ravi Salgia'',
     meeting_date_long = str ''April 25, 2026'',
     venue = str ''Minneapolis Marriott City Center'',
     city_state = str ''Minneapolis, MN'',
     default_tier = str ''standard_1d'',
     expected_attendance = Some 30\<rparr>,
    \<lparr>meeting_name = str ''2026 Cancer Updates Breast and Lung, Kansas City'',
     meeting_date_long = str ''May 14, 2026'',
     venue = str ''Crossroads Hotel Kansas City'',
     city_state = str ''Kansas City, MO'',
     default_tier = str ''standard_1d'',
     expected_attendance = Some 30\<rparr>,
    \<lparr>meeting_name = str ''ESMO in Focus 2026: Breast - EAST - With Reshma Mahtani and Kevin Kalinsky'',
     meeting_date_long = str ''May 16, 2026'',
     venue = str ''Baltimore, MD'',
     city_state = str ''Baltimore, MD'',
     default_tier = str ''standard_1d'',
     expected_attendance = None\<rparr>,
    \<lparr>meeting_name = str ''ESMO in Focus 2026: Breast - WEST - With Hope Rugo and Sarah Tolaney'',
     meeting_date_long = str ''May 16, 2026'',
     venue = str ''Salt Lake City, UT'',
     city_state = str ''Salt Lake City, UT'',
     default_tier = str ''standard_1d'',
     expected_attendance = None\<rparr>,
    \<lparr>meeting_name = str ''2026 ASCO Direct Puerto Rico'',
     meeting_date_long = str ''June 13-14, 2026'',
     venue = str ''Hyatt Regency Grand Reserve'',
     city_state = str ''San Juan, PR'',
     default_tier = str ''standard_2d'',
     expected_attendance = Some 60\<rparr>,
    \<lparr>meeting_name = str ''2026 ASCO Direct Austin'',
     meeting_date_long = str ''June 13-14, 2026'',
     venue = str ''W Austin'',
     city_state = str ''Austin, TX'',
     default_tier = str ''standard_2d'',
     expected_attendance = Some 60\<rparr>,
    \<lparr>meeting_name = str ''2026 ASCO Direct Los Angeles'',
     meeting_date_long = str ''June 13-14, 2026'',
     venue = str ''Le Meridien'',
     city_state = str ''Los Angeles, CA'',
     default_tier = str ''standard_2d'',
     expected_attendance = Some 50\<rparr>,
    \<lparr>meeting_name = str ''2026 ASCO Direct Hawaii'',
     meeting_date_long = str ''June 27-28, 2026'',
     venue = str ''Sheraton Waikiki Beach Resort'',
     city_state = str ''Honolulu, HI'',
     default_tier = str ''standard_2d'',
     expected_attendance = Some 100\<rparr>,
    \<lparr>meeting_name = str ''2026 ASCO Direct Washington DC'',
     meeting_date_long = str ''June 27-28, 2026'',
     venue = str ''Four Seasons Hotel Washington'',
     city_state = str ''Washington DC'',
     default_tier = str ''standard_2d'',
     expected_attendance = Some 60\<rparr>,
    \<lparr>meeting_name = str ''2026 ASCO Direct Denver'',
     meeting_date_long = str ''June 27-28, 2026'',
     venue = str ''Denver Marriott Westminster'',
     city_state = str ''Denver, CO'',
     default_tier = str ''standard_2d'',
     expected_attendance = Some 60\<rparr>,
    \<lparr>meeting_name = str ''2026 Cancer Updates Heme and Breast, Michigan'',
     meeting_date_long = str ''July 9, 2026'',
     venue = str ''The Vanguard Ann Arbor, Autograph Collection'',
     city_state = str ''Ann Arbor, MI'',
     default_tier = str ''standard_1d'',
     expected_attendance = Some 30\<rparr>,
    \<lparr>meeting_name = str ''2026 ASCO Direct New Orleans'',
     meeting_date_long = str ''July 10-11, 2026'',
     venue = str ''Hyatt Regency NOLA'',
     city_state = str ''New Orleans, LA'',
     default_tier = str ''standard_2d'',
     expected_attendance = Some 30\<rparr>,
    \<lparr>meeting_name = str ''2026 ASCO Direct Charlotte'',
     meeting_date_long = str ''July 18-19, 2026'',
     venue = str ''Grand Bohemian'',
     city_state = str ''Charlotte, NC'',
     default_tier = str ''standard_2d'',
     expected_attendance = Some 60\<rparr>,
    \<lparr>meeting_name = str ''2026 ASCO Direct Philadelphia'',
     meeting_date_long = str ''July 18-19, 2026'',
     venue = str ''Rittenhouse'',
     city_state = str ''Philadelphia, PA'',
     default_tier = str ''standard_2d'',
     expected_attendance = Some 60\<rparr>,
    \<lparr>meeting_name = str ''2026 ASCO Direct Anchorage'',
     meeting_date_long = str ''July 18-19, 2026'',
     venue = str ''Anchorage Marriott Downtown'',
     city_state = str ''Anchorage, AK'',
     default_tier = str ''standard_2d'',
     expected_attendance = Some 30\<rparr>,
    \<lparr>meeting_name = str ''2026 ASCO Direct Las Vegas'',
     meeting_date_long = str ''July 25-26, 2026'',
     venue = str ''Westin Lake Las Vegas'',
     city_state = str ''Henderson/Las Vegas, NV'',
     default_tier = str ''standard_2d'',
     expected_attendance = Some 60\<rparr>,
    \<lparr>meeting_name = str ''2026 ASCO Direct Indianapolis'',
     meeting_date_long = str ''July 25-26, 2026'',
     venue = str ''Indianapolis Marriott Downtown'',
     city_state = str ''Indianapolis, IN'',
     default_tier = str ''standard_2d'',
     expected_attendance = Some 50\<rparr>,
    \<lparr>meeting_name = str ''2026 ASCO Direct Minneapolis'',
     meeting_date_long = str ''August 1-2, 2026'',
     venue = str ''Four Seasons Minneapolis'',
     city_state = str ''Minneapolis, MN'',
     default_tier = str ''standard_2d'',
     expected_attendance = Some 50\<rparr>,
    \<lparr>meeting_name = str ''2026 ASCO Direct Maine'',
     meeting_date_long = str ''August 1-2, 2026'',
     venue = str ''TBD'',
     city_state = str ''Portland, ME'',
     default_tier = str ''standard_2d'',
     expected_attendance = Some 50\<rparr>,
    \<lparr>meeting_name = str ''2026 ASCO Direct Boston'',
     meeting_date_long = str ''August 8-9, 2026'',
     venue = str ''Ritz Carlton Boston'',
     city_state = str ''Boston, MA'',
     default_tier = str ''standard_2d'',
     expected_attendance = Some 50\<rparr>,
    \<lparr>meeting_name = str ''2026 ASCO Direct Seattle'',
     meeting_date_long = str ''August 8-9, 2026'',
     venue = str ''Hilton Motif Seattle'',
     city_state = str ''Seattle, WA'',
     default_tier = str ''standard_2d'',
     expected_attendance = Some 50\<rparr>,
    \<lparr>meeting_name = str ''2026 ASCO Direct Memphis'',
     meeting_date_long = str ''August 8-9, 2026'',
     venue = str ''Hilton Memphis'',
     city_state = str ''Memphis, TN'',
     default_tier = str ''standard_2d'',
     expected_attendance = Some 60\<rparr>,
    \<lparr>meeting_name = str ''2026 Cancer Update GU and Lung, Princeton, NJ'',
     meeting_date_long = str ''August 13, 2026'',
     venue = str ''Princeton Marriott at Forrestal'',
     city_state = str ''Princeton, NJ'',
     default_tier = str ''standard_1d'',
     expected_attendance = Some 30\<rparr>,
    \<lparr>meeting_name = str ''2026 Oncology Clinical Updates - Review and Renew Martha'' @ [39] @ str ''s Vineyard'',
     meeting_date_long = str ''August 15-16, 2026'',
     venue = str ''Martha'' @ [39] @ str ''s Vineyard, MA'',
     city_state = str ''Martha'' @ [39] @ str ''s Vineyard, MA'',
     default_tier = str ''standard_2d'',
     expected_attendance = None\<rparr>,
    \<lparr>meeting_name = str ''2026 Cancer Updates GU and Heme, Houston, TX'',
     meeting_date_long = str ''September 10, 2026'',
     venue = str ''The Blossom Hotel Houston'',
     city_state = str ''Houston, TX'',
     default_tier = str ''standard_1d'',
     expected_attendance = Some 30\<rparr>,
    \<lparr>meeting_name = str ''2026 MDONS Conference'',
     meeting_date_long = str ''September 18, 2026'',
     venue = str ''The Westin Westminster'',
     city_state = str ''Denver, CO'',
     default_tier = str ''standard_1d'',
     expected_attendance = Some 200\<rparr>,
    \<lparr>meeting_name = str ''2026 Cancer Updates Lung and Breast, Dallas, TX'',
     meeting_date_long = str ''September 24, 2026'',
     venue = str ''The Beeman Hotel'',
     city_state = str ''Dallas, TX'',
     default_tier = str ''standard_1d'',
     expected_attendance = Some 30\<rparr>,
    \<lparr>meeting_name = str ''2026 Cancer Updates GU and Lung, Philadelphia, PA'',
     meeting_date_long = str ''September 24, 2026'',
     venue = str ''Hilton Penn'' @ [39] @ str ''s Landing'',
     city_state = str ''Philadelphia, PA'',
     default_tier = str ''standard_1d'',
     expected_attendance = Some 30\<rparr>,
    \<lparr>meeting_name = str ''2026 Astera Cancer Care Annual Retreat'',
     meeting_date_long = str ''September 26, 2026'',
     venue = str ''Ocean Place Resort and Spa'',
     city_state = str ''Long Branch, NJ'',
     default_tier = str ''standard_1d'',
     expected_attendance = None\<rparr>,
    \<lparr>meeting_name = str ''2026 Pathways Conference'',
     meeting_date_long = str ''September 25-26, 2026'',
     venue = str ''Hotel Zaza Houston'',
     city_state = str ''Houston, TX'',
     default_tier = str ''standard_2d'',
     expected_attendance = None\<rparr>,
    \<lparr>meeting_name = str ''2026 Cancer Updates GI and Breast, Boston, MA'',
     meeting_date_long = str ''October 1, 2026'',
     venue = str ''Battery Wharf Hotel Boston Waterfront'',
     city_state = str ''Boston, MA'',
     default_tier = str ''standard_1d'',
     expected_attendance = Some 30\<rparr>,
    \<lparr>meeting_name = str ''2026 West Oncology APP Dinner'',
     meeting_date_long = str ''October 8, 2026'',
     venue = str ''Hilton Memphis'',
     city_state = str ''Memphis, TN'',
     default_tier = str ''standard_1d'',
     expected_attendance = Some 30\<rparr>,
    \<lparr>meeting_name = str ''2026 Virtual West Oncology APP'',
     meeting_date_long = str ''October 9, 2026'',
     venue = str ''Virtual'',
     city_state = str ''Virtual'',
     default_tier = str ''standard_1d'',
     expected_attendance = None\<rparr>,
    \<lparr>meeting_name = str ''2026 Empower (Patient Meeting)'',
     meeting_date_long = str ''October 10, 2026'',
     venue = str ''Boca Raton, FL'',
     city_state = str ''Boca Raton, FL'',
     default_tier = str ''standard_1d'',
     expected_attendance = None\<rparr>,
    \<lparr>meeting_name = str ''2026 Empower GI Conference'',
     meeting_date_long = str ''November 7, 2026'',
     venue = str ''Washington DC'',
     city_state = str ''Washington DC'',
     default_tier = str ''standard_1d'',
     expected_attendance = None\<rparr>,
    \<lparr>meeting_name = str ''2026 ESMO USA West'',
     meeting_date_long = str ''November 14-15, 2026'',
     venue = str ''Colorado Springs, CO'',
     city_state = str ''Colorado Springs, CO'',
     default_tier = str ''standard_2d'',
     expected_attendance = None\<rparr>,
    \<lparr>meeting_name = str ''2026 ESMO USA East'',
     meeting_date_long = str ''November 14-15, 2026'',
     venue = str ''Orlando, FL'',
     city_state = str ''Orlando, FL'',
     default_tier = str ''standard_2d'',
     expected_attendance = None\<rparr>,
    \<lparr>meeting_name = str ''2026 Multidisciplinary Head and Neck Cancer Symposium'',
     meeting_date_long = str ''November 14, 2026'',
     venue = str ''Garden City, NY'',
     city_state = str ''Garden City, NY'',
     default_tier = str ''standard_1d'',
     expected_attendance = None\<rparr>]"

definition ALL_EVENTS :: "event list" where
  "ALL_EVENTS = EVENTS_2025 @ EVENTS_2026"

definition get_all_events :: "event list" where
  "get_all_events = ALL_EVENTS"

section \<open>The event matcher (\<open>services/event_matcher.py\<close>)\<close>

text \<open>
  The matcher holds the catalog in \<open>self.events\<close>; here it is the first argument of every
  method. A stage's \<open>for\<close> loop with its early \<open>return\<close> is a recursion over the catalog.
\<close>

fun exact_partial_loop :: "pystr \<Rightarrow> event list \<Rightarrow> event option" where
  "exact_partial_loop event_name_lower [] = None"
| "exact_partial_loop event_name_lower (event # events) =
     (let system_name_lower = lower (meeting_name event)
      in if is_in event_name_lower system_name_lower \<or> is_in system_name_lower event_name_lower
         then Some event
         else exact_partial_loop event_name_lower events)"

definition exact_partial_match :: "event list \<Rightarrow> pystr \<Rightarrow> event option" where
  "exact_partial_match events event_name = exact_partial_loop (lower event_name) events"

definition normalize_name :: "pystr \<Rightarrow> pystr" where
  "normalize_name name0 =
     (let name1 = lower name0;
          name2 = replace (replace name1 [8211] (str ''-'')) [8212] (str ''-'');
          name3 = replace name2 (str ''best of asco'') (str ''asco direct'');
          name4 = replace (replace name3 (str ''best of'') []) (str ''best'') [];
          name5 = join (str '' '') (split name4)
      in name5)"

fun normalized_loop :: "pystr \<Rightarrow> event list \<Rightarrow> event option" where
  "normalized_loop normalized_input [] = None"
| "normalized_loop normalized_input (event # events) =
     (let normalized_system = normalize_name (meeting_name event)
      in if is_in normalized_input normalized_system \<or> is_in normalized_system normalized_input
         then Some event
         else normalized_loop normalized_input events)"

definition normalized_match :: "event list \<Rightarrow> pystr \<Rightarrow> event option" where
  "normalized_match events event_name = normalized_loop (normalize_name event_name) events"

text \<open>
  The loop of \<open>_keyword_match\<close>, with its two variables \<open>best_match\<close> and \<open>max_common\<close>.
\<close>

definition common_count :: "pystr list \<Rightarrow> event \<Rightarrow> nat" where
  "common_count input_words event =
     card (set input_words \<inter> set (split (lower (meeting_name event))))"

fun keyword_loop :: "pystr list \<Rightarrow> event option \<Rightarrow> nat \<Rightarrow> event list \<Rightarrow> event option" where
  "keyword_loop input_words best_match max_common [] = best_match"
| "keyword_loop input_words best_match max_common (event # events) =
     (if 3 \<le> common_count input_words event \<and> max_common < common_count input_words event
      then keyword_loop input_words (Some event) (common_count input_words event) events
      else keyword_loop input_words best_match max_common events)"

definition keyword_match :: "event list \<Rightarrow> pystr \<Rightarrow> event option" where
  "keyword_match events event_name = keyword_loop (split (lower event_name)) None 0 events"

text \<open>\<open>not event_name or not event_name.strip()\<close>\<close>

definition is_blank :: "pystr \<Rightarrow> bool" where
  "is_blank event_name \<longleftrightarrow> event_name = [] \<or> strip event_name = []"

definition match_event :: "event list \<Rightarrow> pystr \<Rightarrow> event option" where
  "match_event events event_name =
     (if is_blank event_name then None
      else case exact_partial_match events event_name of
             Some matched \<Rightarrow> Some matched
           | None \<Rightarrow>
               (case normalized_match events event_name of
                  Some matched \<Rightarrow> Some matched
                | None \<Rightarrow>
                    (case keyword_match events event_name of
                       Some matched \<Rightarrow> Some matched
                     | None \<Rightarrow> None)))"

definition match_with_confidence :: "event list \<Rightarrow> pystr \<Rightarrow> event option \<times> pystr" where
  "match_with_confidence events event_name =
     (if is_blank event_name then (None, str ''none'')
      else case exact_partial_match events event_name of
             Some matched \<Rightarrow> (Some matched, str ''exact'')
           | None \<Rightarrow>
               (case normalized_match events event_name of
                  Some matched \<Rightarrow> (Some matched, str ''normalized'')
                | None \<Rightarrow>
                    (case keyword_match events event_name of
                       Some matched \<Rightarrow> (Some matched, str ''keyword'')
                     | None \<Rightarrow> (None, str ''none''))))"


section \<open>Rounding\<close>

lemma round_half_even_nearest: "\<bar>x - of_int (round_half_even x)\<bar> \<le> 1 / 2"
  unfolding round_half_even_def Let_def
  by (auto simp: abs_if) linarith+

lemma round_half_even_tie:
  "\<bar>x - of_int (round_half_even x)\<bar> = 1 / 2 \<Longrightarrow> even (round_half_even x)"
  unfolding round_half_even_def Let_def
  by (auto simp: abs_if split: if_splits) linarith+

lemma round_half_even_of_int: "round_half_even (of_int n) = n"
  by (simp add: round_half_even_def)

lemma round_nearest_50_finite:
  "round_nearest_50 (Finite x) = Inr (Finite (of_int (round_half_even (x / 50)) * 50))"
  by (simp add: round_nearest_50_def)

text \<open>
  Claim C5. On a finite amount \<open>round_nearest_50\<close> returns the multiple of 50 nearest to
  its argument, and at a midpoint the even multiple; every multiple of 50 is a fixed point,
  7550.00 among them; 7525.00 goes to 7500 and 7537.50 to 7550.
\<close>

theorem round_nearest_50_half_even:
  "(\<exists>k. round_nearest_50 (Finite x) = Inr (Finite (of_int k * 50)) \<and>
        \<bar>x - of_int k * 50\<bar> \<le> 25 \<and>
        (\<bar>x - of_int k * 50\<bar> = 25 \<longrightarrow> even k)) \<and>
   round_nearest_50 (Finite (of_int n * 50)) = Inr (Finite (of_int n * 50)) \<and>
   round_nearest_50 (Finite 7550) = Inr (Finite 7550) \<and>
   round_nearest_50 (Finite 7525) = Inr (Finite 7500) \<and>
   round_nearest_50 (Finite (75375 / 10)) = Inr (Finite 7550)"
proof -
  let ?k = "round_half_even (x / 50)"
  have d: "x - of_int ?k * 50 = (x / 50 - of_int ?k) * 50"
    by (simp add: algebra_simps)
  have near: "\<bar>x - of_int ?k * 50\<bar> \<le> 25"
    using round_half_even_nearest [of "x / 50"] unfolding d abs_mult by simp
  have tie: "\<bar>x - of_int ?k * 50\<bar> = 25 \<longrightarrow> even ?k"
    using round_half_even_tie [of "x / 50"] unfolding d abs_mult by simp
  have general: "\<exists>k. round_nearest_50 (Finite x) = Inr (Finite (of_int k * 50)) \<and>
        \<bar>x - of_int k * 50\<bar> \<le> 25 \<and> (\<bar>x - of_int k * 50\<bar> = 25 \<longrightarrow> even k)"
    using near tie by (intro exI [of _ ?k]) (simp add: round_nearest_50_finite)
  have fixed: "round_nearest_50 (Finite (of_int n * 50)) = Inr (Finite (of_int n * 50))"
    by (simp add: round_nearest_50_finite round_half_even_of_int)
  have e1: "round_nearest_50 (Finite 7550) = Inr (Finite 7550)" by code_simp
  have e2: "round_nearest_50 (Finite 7525) = Inr (Finite 7500)" by code_simp
  have e3: "round_nearest_50 (Finite (75375 / 10)) = Inr (Finite 7550)" by code_simp
  from general fixed e1 e2 e3 show ?thesis by blast
qed

theorem round_nearest_50_half_even_witness:
  "\<exists>k. round_nearest_50 (Finite 7525) = Inr (Finite (of_int k * 50)) \<and>
       \<bar>7525 - of_int k * 50 :: rat\<bar> = 25 \<and> even k"
proof -
  from round_nearest_50_half_even [of 7525 0]
  obtain k where k: "round_nearest_50 (Finite 7525) = Inr (Finite (of_int k * 50))"
      "\<bar>7525 - of_int k * 50 :: rat\<bar> = 25 \<longrightarrow> even k"
    and v: "round_nearest_50 (Finite 7525) = Inr (Finite 7500)"
    by blast
  from k(1) v have "\<bar>7525 - of_int k * 50 :: rat\<bar> = 25" by simp
  with k show ?thesis by blast
qed

section \<open>The pricing engine: results\<close>

text \<open>
  The add-on loop never fails: the test \<open>key in add_ons_pricing\<close> guards the indexing.
  Its result adds, over the occurrences of the keys in the list, the price of the key in
  the table, an absent key adding 0. With finite prices the booth price, the add-on total
  and every multiplier of the discount table are finite, and the call returns a record.
  With the key \<open>custom\<close> and a custom total that is an infinity or NaN, \<open>round\<close> raises.
\<close>

lemma is_finite_iff: "is_finite x \<longleftrightarrow> (\<exists>v. x = Finite v)"
  by (cases x) auto

lemma float_add_zero: "float_add x (Finite 0) = x"
  by (cases x) auto

lemma sum_add_ons_eq:
  "sum_add_ons t running keys =
     Inr (foldl float_add running
            (map (\<lambda>key. case t key of None \<Rightarrow> Finite 0 | Some entry \<Rightarrow> price entry) keys))"
  by (induction keys arbitrary: running) (auto simp: getitem_def float_add_zero)

lemma foldl_float_add_finite:
  assumes "\<forall>key entry. t key = Some entry \<longrightarrow> is_finite (price entry)"
  shows "foldl float_add (Finite a)
           (map (\<lambda>key. case t key of None \<Rightarrow> Finite 0 | Some entry \<Rightarrow> price entry) keys) =
         Finite (a + (\<Sum>key\<leftarrow>keys. case t key of None \<Rightarrow> 0
                        | Some entry \<Rightarrow> (case price entry of Finite p \<Rightarrow> p | _ \<Rightarrow> 0)))"
proof (induction keys arbitrary: a)
  case Nil
  then show ?case by simp
next
  case (Cons key keys)
  show ?case
  proof (cases "t key")
    case None
    then show ?thesis using Cons.IH [of a] by simp
  next
    case (Some entry)
    with assms obtain p where "price entry = Finite p" by (auto simp: is_finite_iff)
    with Some show ?thesis using Cons.IH [of "a + p"] by (simp add: add.assoc)
  qed
qed

lemma booth_price_finite:
  assumes "\<forall>key p. get_booth_prices st key = Some p \<longrightarrow> is_finite p"
  shows "\<exists>b. (if tier = str ''(no booth)'' then Finite 0
              else get_default (get_booth_prices st) tier (Finite 0)) = Finite b"
  using assms by (auto simp: get_default_def is_finite_iff split: option.splits)

lemma discount_none: "get_discount_multiplier (str ''none'') = Some (Finite 1)"
  by code_simp

lemma discount_minus_10: "get_discount_multiplier (str ''minus_10'') = Some (Finite (9 / 10))"
  by code_simp

lemma discount_minus_15: "get_discount_multiplier (str ''minus_15'') = Some (Finite (85 / 100))"
  by code_simp

lemma discount_minus_20: "get_discount_multiplier (str ''minus_20'') = Some (Finite (8 / 10))"
  by code_simp



lemma custom_is_not_standard:
  "str ''custom'' \<notin> {str ''none'', str ''minus_10'', str ''minus_15'', str ''minus_20''}"
  by code_simp


lemma calculate_pricing_standard:
  assumes "dkey \<noteq> str ''custom'' \<or> custom_total = None"
    and "(if tier = str ''(no booth)'' then Finite 0
          else get_default (get_booth_prices st) tier (Finite 0)) = Finite b"
    and "sum_add_ons (get_add_ons_pricing st year) (Finite 0) keys = Inr (Finite a)"
    and "or_one (get_discount_multiplier dkey) = Finite m"
  shows "calculate_pricing st tier keys year dkey custom_total =
     Inr \<lparr>booth_tier = tier, booth_price = Finite b, add_on_keys = keys,
           add_ons_total = Finite a, subtotal = Finite (b + a), discount_key = dkey,
           discount_multiplier = Finite m,
           discount_amount = Finite ((b + a) - (b + a) * m),
           final_total = Finite ((b + a) * m),
           rounded_total = Finite (of_int (round_half_even ((b + a) * m / 50)) * 50)\<rparr>"
  using assms by (auto simp: calculate_pricing_def Let_def round_nearest_50_finite float_sub_def)

lemma calculate_pricing_custom:
  "calculate_pricing st tier keys year (str ''custom'') (Some (Finite x)) =
     (let bprice = (if tier = str ''(no booth)'' then Finite 0
                    else get_default (get_booth_prices st) tier (Finite 0));
          addons = foldl float_add (Finite 0)
                     (map (\<lambda>key. case get_add_ons_pricing st year key of
                                    None \<Rightarrow> Finite 0 | Some entry \<Rightarrow> price entry) keys)
      in Inr \<lparr>booth_tier = tier, booth_price = bprice, add_on_keys = keys,
              add_ons_total = addons, subtotal = float_add bprice addons,
              discount_key = str ''custom'', discount_multiplier = Finite 0,
              discount_amount = float_sub (float_add bprice addons) (Finite x),
              final_total = Finite x,
              rounded_total = Finite (of_int (round_half_even (x / 50)) * 50)\<rparr>)"
  by (simp add: calculate_pricing_def Let_def sum_add_ons_eq round_nearest_50_finite)


lemma fallback_prices_finite:
  "(\<forall>key p. get_booth_prices None key = Some p \<longrightarrow> is_finite p) \<and>
   (\<forall>key entry. get_add_ons_pricing None year key = Some entry \<longrightarrow> is_finite (price entry))"
  by (auto simp: get_booth_prices_def fallback_booth_prices_def get_add_ons_pricing_def
      get_add_ons_2025_def get_add_ons_2026_def fallback_add_ons_2025_def
      fallback_add_ons_2026_def split: if_splits)


lemma sum_add_ons_finite:
  assumes "\<forall>key entry. t key = Some entry \<longrightarrow> is_finite (price entry)"
  shows "sum_add_ons t (Finite 0) keys =
           Inr (Finite (\<Sum>key\<leftarrow>keys. case t key of None \<Rightarrow> 0
                          | Some entry \<Rightarrow> (case price entry of Finite p \<Rightarrow> p | _ \<Rightarrow> 0)))"
  using foldl_float_add_finite [OF assms, of 0 keys] by (simp add: sum_add_ons_eq)

lemma scenario_year_a:
  "calculate_pricing None (str ''standard_2d'')
     [str ''program_ad_full'', str ''charging_stations''] 2025 (str ''minus_10'') None =
   Inr \<lparr>booth_tier = str ''standard_2d'', booth_price = Finite 7500,
         add_on_keys = [str ''program_ad_full'', str ''charging_stations''],
         add_ons_total = Finite 4000, subtotal = Finite 11500, discount_key = str ''minus_10'',
         discount_multiplier = Finite (9 / 10), discount_amount = Finite 1150,
         final_total = Finite 10350, rounded_total = Finite 10350\<rparr>"
  by code_simp

lemma upsell_example:
  "calculate_pricing None (str ''premier'') [str ''non_cme_session''] 2025 (str ''custom'')
     (Some (Finite 70000)) =
   Inr \<lparr>booth_tier = str ''premier'', booth_price = Finite 15000,
         add_on_keys = [str ''non_cme_session''],
         add_ons_total = Finite 50000, subtotal = Finite 65000, discount_key = str ''custom'',
         discount_multiplier = Finite 0, discount_amount = Finite (- 5000),
         final_total = Finite 70000, rounded_total = Finite 70000\<rparr>"
  by code_simp








text \<open>
  Claim C2. For a discount key among \<open>none\<close>, \<open>minus_10\<close>, \<open>minus_15\<close> and \<open>minus_20\<close>,
  with multiplier \<open>m\<close> 1, 0.90, 0.85 and 0.80 respectively, and finite prices in the tables,
  \<open>calculate_pricing\<close> returns a result with \<open>subtotal = booth_price + add_ons_total\<close>,
  \<open>final_total = subtotal * m\<close>, \<open>discount_amount = subtotal - final_total\<close> and
  \<open>rounded_total = round_nearest_50(final_total)\<close>, whatever custom total is passed along.
\<close>

theorem calculate_pricing_standard_discount:
  assumes "(dkey, m) \<in> {(str ''none'', 1), (str ''minus_10'', 9 / 10),
                        (str ''minus_15'', 85 / 100), (str ''minus_20'', 8 / 10)}"
    and "finite_prices st year"
  shows "\<exists>r. calculate_pricing st tier keys year dkey custom_total = Inr r \<and>
             subtotal r = float_add (booth_price r) (add_ons_total r) \<and>
             final_total r = float_mul (subtotal r) (Finite m) \<and>
             discount_amount r = float_sub (subtotal r) (final_total r) \<and>
             round_nearest_50 (final_total r) = Inr (rounded_total r) \<and>
             (\<exists>b a. booth_price r = Finite b \<and> add_ons_total r = Finite a \<and>
                    subtotal r = Finite (b + a) \<and>
                    final_total r = Finite ((b + a) * m) \<and>
                    discount_amount r = Finite ((b + a) - (b + a) * m))"
proof -
  from assms(1) custom_is_not_standard
  have nc: "dkey \<noteq> str ''custom'' \<or> custom_total = None"
    by auto
  from assms(1) have m: "or_one (get_discount_multiplier dkey) = Finite m"
    by (auto simp: or_one_def discount_none discount_minus_10 discount_minus_15 discount_minus_20)
  from assms(2) booth_price_finite [of st tier]
  obtain b where b: "(if tier = str ''(no booth)'' then Finite 0
                      else get_default (get_booth_prices st) tier (Finite 0)) = Finite b"
    by blast
  from assms(2) sum_add_ons_finite [of "get_add_ons_pricing st year" keys]
  obtain a where a: "sum_add_ons (get_add_ons_pricing st year) (Finite 0) keys = Inr (Finite a)"
    by blast
  show ?thesis
    by (simp add: calculate_pricing_standard [OF nc b a m] round_nearest_50_finite float_sub_def)
qed

theorem calculate_pricing_standard_discount_witness:
  "(str ''minus_10'', 9 / 10) \<in> {(str ''none'', 1), (str ''minus_10'', 9 / 10),
                        (str ''minus_15'', 85 / 100), (str ''minus_20'', 8 / 10 :: rat)} \<and>
   (\<exists>r. calculate_pricing None (str ''standard_2d'')
           [str ''program_ad_full'', str ''charging_stations''] 2025 (str ''minus_10'') None = Inr r \<and>
        subtotal r = Finite 11500 \<and>
        final_total r = float_mul (subtotal r) (Finite (9 / 10)) \<and>
        final_total r = Finite 10350 \<and>
        discount_amount r = Finite 1150 \<and>
        round_nearest_50 (final_total r) = Inr (rounded_total r) \<and>
        rounded_total r = Finite 10350)"
proof -
  have h: "(str ''minus_10'', 9 / 10) \<in> {(str ''none'', 1), (str ''minus_10'', 9 / 10),
                        (str ''minus_15'', 85 / 100), (str ''minus_20'', 8 / 10 :: rat)}"
    by simp
  from calculate_pricing_standard_discount [OF h fallback_prices_finite,
      where year = 2025 and tier = "str ''standard_2d''"
        and keys = "[str ''program_ad_full'', str ''charging_stations'']"
        and custom_total = None]
  obtain r where r: "calculate_pricing None (str ''standard_2d'')
           [str ''program_ad_full'', str ''charging_stations''] 2025 (str ''minus_10'') None = Inr r"
      "final_total r = float_mul (subtotal r) (Finite (9 / 10))"
      "round_nearest_50 (final_total r) = Inr (rounded_total r)"
    by blast
  from r(1) have "subtotal r = Finite 11500 \<and> final_total r = Finite 10350 \<and>
      discount_amount r = Finite 1150 \<and> rounded_total r = Finite 10350"
    unfolding scenario_year_a by auto
  with h r show ?thesis by blast
qed

text \<open>
  Claim C3. With the discount key \<open>custom\<close> and a finite custom total \<open>x\<close>, the final total
  before rounding is \<open>x\<close> for every booth tier, add-on selection and year, and the discount
  amount is \<open>subtotal - x\<close>: when \<open>x\<close> exceeds the subtotal it is negative and a result is
  still returned.
\<close>

theorem calculate_pricing_custom_override:
  "\<exists>r. calculate_pricing st tier keys year (str ''custom'') (Some (Finite x)) = Inr r \<and>
       subtotal r = float_add (booth_price r) (add_ons_total r) \<and>
       final_total r = Finite x \<and>
       discount_amount r = float_sub (subtotal r) (Finite x) \<and>
       (\<forall>s. subtotal r = Finite s \<longrightarrow>
            discount_amount r = Finite (s - x) \<and> (s < x \<longrightarrow> s - x < 0))"
  by (simp add: calculate_pricing_custom Let_def float_sub_def)

theorem calculate_pricing_custom_override_witness:
  "\<exists>r. calculate_pricing None (str ''premier'') [str ''non_cme_session''] 2025 (str ''custom'')
          (Some (Finite 70000)) = Inr r \<and>
       subtotal r = Finite 65000 \<and> (65000 :: rat) < 70000 \<and> final_total r = Finite 70000 \<and>
       discount_amount r = Finite (65000 - 70000) \<and> (65000 - 70000 :: rat) < 0"
proof -
  from calculate_pricing_custom_override [of None "str ''premier''" "[str ''non_cme_session'']"
      2025 70000]
  obtain r where r: "calculate_pricing None (str ''premier'') [str ''non_cme_session''] 2025
        (str ''custom'') (Some (Finite 70000)) = Inr r"
      "final_total r = Finite 70000"
      "\<forall>s. subtotal r = Finite s \<longrightarrow>
            discount_amount r = Finite (s - 70000) \<and> (s < 70000 \<longrightarrow> s - 70000 < 0)"
    by blast
  from r(1) have s: "subtotal r = Finite 65000"
    unfolding upsell_example by auto
  with r(3) have "discount_amount r = Finite (65000 - 70000) \<and> (65000 - 70000 :: rat) < 0"
    by simp
  with r(1,2) s show ?thesis by simp
qed









section \<open>The event matcher: results\<close>

text \<open>
  \<open>is_in sub s\<close> holds exactly when \<open>sub\<close> occurs in \<open>s\<close> as a contiguous piece. A stage
  loop returns the first event of the catalog that passes its test; the keyword loop
  returns the first event among those with the largest count, when that count is at
  least 3. The guard of the matcher fires exactly on the strings made of whitespace only.
\<close>

lemma startswith_iff: "startswith s p \<longleftrightarrow> (\<exists>post. s = p @ post)"
  by (induction s p rule: startswith.induct) auto

lemma is_in_iff: "is_in sub s \<longleftrightarrow> (\<exists>pre post. s = pre @ sub @ post)"
proof (induction s)
  case Nil
  then show ?case by auto
next
  case (Cons c cs)
  show ?case
  proof
    assume "is_in sub (c # cs)"
    then consider "startswith (c # cs) sub" | "is_in sub cs" by auto
    then show "\<exists>pre post. c # cs = pre @ sub @ post"
    proof cases
      case 1
      then obtain post where "c # cs = sub @ post" by (auto simp: startswith_iff)
      then have "c # cs = [] @ sub @ post" by simp
      then show ?thesis by blast
    next
      case 2
      with Cons.IH obtain pre post where "cs = pre @ sub @ post" by blast
      then have "c # cs = (c # pre) @ sub @ post" by simp
      then show ?thesis by blast
    qed
  next
    assume "\<exists>pre post. c # cs = pre @ sub @ post"
    then obtain pre post where eq: "c # cs = pre @ sub @ post" by blast
    show "is_in sub (c # cs)"
    proof (cases pre)
      case Nil
      with eq have "startswith (c # cs) sub" by (auto simp: startswith_iff)
      then show ?thesis by simp
    next
      case (Cons p pre')
      with eq have "cs = pre' @ sub @ post" by simp
      with Cons.IH have "is_in sub cs" by blast
      then show ?thesis by simp
    qed
  qed
qed

lemma exact_partial_loop_first:
  assumes "\<forall>x\<in>set before. \<not> (is_in ql (lower (meeting_name x)) \<or> is_in (lower (meeting_name x)) ql)"
    and "is_in ql (lower (meeting_name e)) \<or> is_in (lower (meeting_name e)) ql"
  shows "exact_partial_loop ql (before @ e # after) = Some e"
  using assms by (induction before) (auto simp: Let_def)

lemma normalized_loop_first:
  assumes "\<forall>x\<in>set before. \<not> (is_in qn (normalize_name (meeting_name x)) \<or>
                                is_in (normalize_name (meeting_name x)) qn)"
    and "is_in qn (normalize_name (meeting_name e)) \<or> is_in (normalize_name (meeting_name e)) qn"
  shows "normalized_loop qn (before @ e # after) = Some e"
  using assms by (induction before) (auto simp: Let_def)

lemma keyword_loop_keeps:
  assumes "\<forall>e\<in>set events. \<not> (3 \<le> common_count ws e \<and> m < common_count ws e)"
  shows "keyword_loop ws best m events = best"
  using assms by (induction events) auto

lemma keyword_loop_finds:
  assumes "\<exists>e\<in>set events. 3 \<le> common_count ws e \<and> m < common_count ws e"
  shows "\<exists>before e after. events = before @ e # after \<and>
           keyword_loop ws best m events = Some e \<and>
           3 \<le> common_count ws e \<and> m < common_count ws e \<and>
           (\<forall>x\<in>set before. common_count ws x < common_count ws e) \<and>
           (\<forall>x\<in>set after. common_count ws x \<le> common_count ws e)"
  using assms
proof (induction events arbitrary: best m)
  case Nil
  then show ?case by simp
next
  case (Cons x xs)
  let ?c = "common_count ws"
  show ?case
  proof (cases "3 \<le> ?c x \<and> m < ?c x")
    case True
    then have step: "keyword_loop ws best m (x # xs) = keyword_loop ws (Some x) (?c x) xs"
      by simp
    show ?thesis
    proof (cases "\<exists>e\<in>set xs. 3 \<le> ?c e \<and> ?c x < ?c e")
      case True
      from Cons.IH [OF True, of "Some x"]
      obtain before e after where f: "xs = before @ e # after"
          "keyword_loop ws (Some x) (?c x) xs = Some e" "3 \<le> ?c e" "?c x < ?c e"
          "\<forall>y\<in>set before. ?c y < ?c e" "\<forall>y\<in>set after. ?c y \<le> ?c e"
        by blast
      from f(1) have "x # xs = (x # before) @ e # after" by simp
      moreover from f(2) step have "keyword_loop ws best m (x # xs) = Some e" by simp
      moreover from \<open>3 \<le> ?c x \<and> m < ?c x\<close> f(4) have "m < ?c e" by simp
      moreover from f(4,5) have "\<forall>y\<in>set (x # before). ?c y < ?c e" by simp
      ultimately show ?thesis using f(3,6) by blast
    next
      case False
      with True have no: "\<forall>e\<in>set xs. \<not> (3 \<le> ?c e \<and> ?c x < ?c e)" by blast
      then have "keyword_loop ws (Some x) (?c x) xs = Some x"
        by (rule keyword_loop_keeps)
      with step have r: "keyword_loop ws best m (x # xs) = Some x" by simp
      have "\<forall>y\<in>set xs. ?c y \<le> ?c x"
      proof
        fix y assume "y \<in> set xs"
        with no have "\<not> (3 \<le> ?c y \<and> ?c x < ?c y)" by blast
        with True show "?c y \<le> ?c x" by linarith
      qed
      with r True have "x # xs = [] @ x # xs \<and> keyword_loop ws best m (x # xs) = Some x \<and>
          3 \<le> ?c x \<and> m < ?c x \<and> (\<forall>y\<in>set []. ?c y < ?c x) \<and> (\<forall>y\<in>set xs. ?c y \<le> ?c x)"
        by simp
      then show ?thesis by blast
    qed
  next
    case False
    then have step: "keyword_loop ws best m (x # xs) = keyword_loop ws best m xs"
      by auto
    from False Cons.prems have "\<exists>e\<in>set xs. 3 \<le> ?c e \<and> m < ?c e" by auto
    from Cons.IH [OF this, of best]
    obtain before e after where f: "xs = before @ e # after"
        "keyword_loop ws best m xs = Some e" "3 \<le> ?c e" "m < ?c e"
        "\<forall>y\<in>set before. ?c y < ?c e" "\<forall>y\<in>set after. ?c y \<le> ?c e"
      by blast
    from f(1) have "x # xs = (x # before) @ e # after" by simp
    moreover from f(2) step have "keyword_loop ws best m (x # xs) = Some e" by simp
    moreover from False f(3,4) have "?c x < ?c e" by linarith
    with f(5) have "\<forall>y\<in>set (x # before). ?c y < ?c e" by simp
    ultimately show ?thesis using f(3,4,6) by blast
  qed
qed

lemma strip_empty_iff: "strip s = [] \<longleftrightarrow> (\<forall>c\<in>set s. is_space c)"
proof
  assume "strip s = []"
  then have "dropWhile is_space (rev (dropWhile is_space s)) = []"
    by (simp add: strip_def)
  then have all: "\<forall>c\<in>set (dropWhile is_space s). is_space c"
    by simp
  have "dropWhile is_space s = []"
  proof (rule ccontr)
    assume ne: "dropWhile is_space s \<noteq> []"
    then have "\<not> is_space (hd (dropWhile is_space s))" by (rule hd_dropWhile)
    moreover from ne have "hd (dropWhile is_space s) \<in> set (dropWhile is_space s)" by simp
    ultimately show False using all by blast
  qed
  then show "\<forall>c\<in>set s. is_space c" by simp
next
  assume "\<forall>c\<in>set s. is_space c"
  then have d: "dropWhile is_space s = []" by simp
  show "strip s = []" unfolding strip_def d by simp
qed

lemma is_blank_iff: "is_blank s \<longleftrightarrow> (\<forall>c\<in>set s. is_space c)"
  by (auto simp: is_blank_def strip_empty_iff)


lemma length_ALL_EVENTS: "length ALL_EVENTS = 64"
  by (simp add: ALL_EVENTS_def EVENTS_2025_def EVENTS_2026_def)

lemma not_blank_denver: "\<not> is_blank (str ''Denver'')"
  by code_simp

lemma denver_2025_name:
  "meeting_name (ALL_EVENTS ! 9) = str ''2025 Cancer Updates Heme and GU, Denver, CO''"
  by code_simp

lemma denver_2026_name: "meeting_name (ALL_EVENTS ! 35) = str ''2026 ASCO Direct Denver''"
  by code_simp

lemma denver_not_before:
  "\<forall>x\<in>set (take 9 ALL_EVENTS).
     \<not> (is_in (lower (str ''Denver'')) (lower (meeting_name x)) \<or>
        is_in (lower (meeting_name x)) (lower (str ''Denver'')))"
  by code_simp

lemma denver_hits:
  "is_in (lower (str ''Denver'')) (lower (meeting_name (ALL_EVENTS ! 9))) \<and>
   is_in (lower (str ''Denver'')) (lower (meeting_name (ALL_EVENTS ! 35)))"
  by code_simp

lemma june_query:
  "\<not> is_blank (str ''2026 Denver June ASCO'') \<and>
   exact_partial_match ALL_EVENTS (str ''2026 Denver June ASCO'') = None \<and>
   normalized_match ALL_EVENTS (str ''2026 Denver June ASCO'') = None"
  by code_simp

lemma june_query_count:
  "common_count (split (lower (str ''2026 Denver June ASCO''))) (ALL_EVENTS ! 35) = 3"
  by code_simp

lemma june_query_result:
  "match_with_confidence ALL_EVENTS (str ''2026 Denver June ASCO'') =
     (Some (ALL_EVENTS ! 35), str ''keyword'')"
  by code_simp

lemma unknown_query:
  "\<not> is_blank (str ''NonExistent Event 2099'') \<and>
   exact_partial_match ALL_EVENTS (str ''NonExistent Event 2099'') = None \<and>
   normalized_match ALL_EVENTS (str ''NonExistent Event 2099'') = None"
  by code_simp

lemma unknown_query_counts:
  "\<forall>e\<in>set ALL_EVENTS. common_count (split (lower (str ''NonExistent Event 2099''))) e < 3"
  by code_simp

lemma best_of_query:
  "\<not> is_blank (str ''2026 Best of ASCO Denver'') \<and>
   exact_partial_match ALL_EVENTS (str ''2026 Best of ASCO Denver'') = None"
  by code_simp

lemma best_of_not_before:
  "\<forall>x\<in>set (take 35 ALL_EVENTS).
     \<not> (is_in (normalize_name (str ''2026 Best of ASCO Denver'')) (normalize_name (meeting_name x)) \<or>
        is_in (normalize_name (meeting_name x)) (normalize_name (str ''2026 Best of ASCO Denver'')))"
  by code_simp

lemma best_of_hit:
  "is_in (normalize_name (str ''2026 Best of ASCO Denver''))
     (normalize_name (meeting_name (ALL_EVENTS ! 35)))"
  by code_simp

lemma best_of_result:
  "match_with_confidence ALL_EVENTS (str ''2026 Best of ASCO Denver'') =
     (Some (ALL_EVENTS ! 35), str ''normalized'')"
  by code_simp

lemma normalize_examples:
  "normalize_name (str ''2026 Best of ASCO Denver'') = str ''2026 asco direct denver''"
  "normalize_name (str ''2026 ASCO Direct Denver'') = str ''2026 asco direct denver''"
  "normalize_name (str ''2026  Best of ASCO '' @ [8211] @ str '' GI '' @ [8212] @ str ''  Best Day'')
     = str ''2026 asco direct - gi - day''"
  by code_simp+

lemma is_in_empty: "is_in [] s"
  by (cases s) simp_all

lemma blank_examples:
  "is_blank (str '''')" "is_blank (str ''   '')"
  by code_simp+

lemma mixed_whitespace: "\<forall>c\<in>set [32, 9, 160, 10]. is_space c"
  by code_simp

text \<open>
  Claim C6. On a query that is not blank the three stages run in the order exact,
  normalized, keyword, and the first stage that finds an event gives the result and the
  confidence label. Stage 1 goes through the catalog in its stored order: the first event
  whose lowercased name contains the lowercased query, or is contained in it, is returned
  with confidence \<open>exact\<close>, whatever follows it in the catalog and whatever the later
  stages would find.
\<close>

theorem match_with_confidence_first_stage_wins:
  assumes "\<not> is_blank q"
  shows "(\<forall>before e after.
            events = before @ e # after \<and>
            (\<forall>x\<in>set before. \<not> (is_in (lower q) (lower (meeting_name x)) \<or>
                                 is_in (lower (meeting_name x)) (lower q))) \<and>
            (is_in (lower q) (lower (meeting_name e)) \<or> is_in (lower (meeting_name e)) (lower q))
            \<longrightarrow> match_with_confidence events q = (Some e, str ''exact'')) \<and>
         (\<forall>e. exact_partial_match events q = Some e
            \<longrightarrow> match_with_confidence events q = (Some e, str ''exact'')) \<and>
         (\<forall>e. exact_partial_match events q = None \<and> normalized_match events q = Some e
            \<longrightarrow> match_with_confidence events q = (Some e, str ''normalized'')) \<and>
         (\<forall>e. exact_partial_match events q = None \<and> normalized_match events q = None \<and>
              keyword_match events q = Some e
            \<longrightarrow> match_with_confidence events q = (Some e, str ''keyword'')) \<and>
         (exact_partial_match events q = None \<and> normalized_match events q = None \<and>
          keyword_match events q = None
            \<longrightarrow> match_with_confidence events q = (None, str ''none''))"
proof -
  have first: "match_with_confidence events q = (Some e, str ''exact'')"
    if "events = before @ e # after"
      and "\<forall>x\<in>set before. \<not> (is_in (lower q) (lower (meeting_name x)) \<or>
                                 is_in (lower (meeting_name x)) (lower q))"
      and "is_in (lower q) (lower (meeting_name e)) \<or> is_in (lower (meeting_name e)) (lower q)"
    for before e after
  proof -
    from that(2,3) have "exact_partial_loop (lower q) (before @ e # after) = Some e"
      by (rule exact_partial_loop_first)
    with that(1) assms show ?thesis
      by (simp add: match_with_confidence_def exact_partial_match_def)
  qed
  from assms have rest:
    "\<And>e. exact_partial_match events q = Some e
        \<Longrightarrow> match_with_confidence events q = (Some e, str ''exact'')"
    "\<And>e. exact_partial_match events q = None \<and> normalized_match events q = Some e
        \<Longrightarrow> match_with_confidence events q = (Some e, str ''normalized'')"
    "\<And>e. exact_partial_match events q = None \<and> normalized_match events q = None \<and>
          keyword_match events q = Some e
        \<Longrightarrow> match_with_confidence events q = (Some e, str ''keyword'')"
    "exact_partial_match events q = None \<and> normalized_match events q = None \<and>
          keyword_match events q = None
        \<Longrightarrow> match_with_confidence events q = (None, str ''none'')"
    by (simp_all add: match_with_confidence_def)
  from first rest show ?thesis by blast
qed

theorem match_with_confidence_first_stage_wins_witness:
  "\<not> is_blank (str ''Denver'') \<and>
   meeting_name (ALL_EVENTS ! 9) = str ''2025 Cancer Updates Heme and GU, Denver, CO'' \<and>
   meeting_name (ALL_EVENTS ! 35) = str ''2026 ASCO Direct Denver'' \<and>
   is_in (lower (str ''Denver'')) (lower (meeting_name (ALL_EVENTS ! 9))) \<and>
   is_in (lower (str ''Denver'')) (lower (meeting_name (ALL_EVENTS ! 35))) \<and>
   match_with_confidence ALL_EVENTS (str ''Denver'') = (Some (ALL_EVENTS ! 9), str ''exact'')"
proof -
  have split: "ALL_EVENTS = take 9 ALL_EVENTS @ (ALL_EVENTS ! 9) # drop 10 ALL_EVENTS"
    using id_take_nth_drop [of 9 ALL_EVENTS] by (simp add: length_ALL_EVENTS)
  from match_with_confidence_first_stage_wins [OF not_blank_denver, of ALL_EVENTS]
  have "\<forall>before e after.
            ALL_EVENTS = before @ e # after \<and>
            (\<forall>x\<in>set before. \<not> (is_in (lower (str ''Denver'')) (lower (meeting_name x)) \<or>
                                 is_in (lower (meeting_name x)) (lower (str ''Denver'')))) \<and>
            (is_in (lower (str ''Denver'')) (lower (meeting_name e)) \<or>
             is_in (lower (meeting_name e)) (lower (str ''Denver'')))
            \<longrightarrow> match_with_confidence ALL_EVENTS (str ''Denver'') = (Some e, str ''exact'')"
    by (rule conjunct1)
  with split denver_not_before denver_hits
  have "match_with_confidence ALL_EVENTS (str ''Denver'') = (Some (ALL_EVENTS ! 9), str ''exact'')"
    by blast
  with not_blank_denver denver_2025_name denver_2026_name denver_hits show ?thesis by blast
qed

text \<open>
  Claim C7. When stages 1 and 2 find nothing, the keyword stage counts, for each event, the
  words that the lowercased, whitespace-split query and name have in common (as sets). If
  some event has at least 3, the result is the first event of the catalog among those with
  the largest count, with confidence \<open>keyword\<close>; if every event has fewer than 3, the
  result is \<open>(None, "none")\<close>.
\<close>

theorem keyword_stage_maximum:
  assumes "\<not> is_blank q"
    and "exact_partial_match events q = None"
    and "normalized_match events q = None"
  shows "((\<exists>e\<in>set events. 3 \<le> common_count (split (lower q)) e) \<longrightarrow>
            (\<exists>before e after.
               events = before @ e # after \<and>
               match_with_confidence events q = (Some e, str ''keyword'') \<and>
               3 \<le> common_count (split (lower q)) e \<and>
               (\<forall>x\<in>set events. common_count (split (lower q)) x \<le> common_count (split (lower q)) e) \<and>
               (\<forall>x\<in>set before. common_count (split (lower q)) x < common_count (split (lower q)) e))) \<and>
         ((\<forall>e\<in>set events. common_count (split (lower q)) e < 3) \<longrightarrow>
            match_with_confidence events q = (None, str ''none'')) \<and>
         (\<forall>e. common_count (split (lower q)) e =
                card (set (split (lower q)) \<inter> set (split (lower (meeting_name e)))))"
proof (intro conjI impI allI)
  let ?c = "common_count (split (lower q))"
  assume "\<exists>e\<in>set events. 3 \<le> ?c e"
  then have "\<exists>e\<in>set events. 3 \<le> ?c e \<and> 0 < ?c e" by auto
  from keyword_loop_finds [OF this, of None]
  obtain before e after where f: "events = before @ e # after"
      "keyword_loop (split (lower q)) None 0 events = Some e" "3 \<le> ?c e"
      "\<forall>x\<in>set before. ?c x < ?c e" "\<forall>x\<in>set after. ?c x \<le> ?c e"
    by blast
  from f(2) assms have "match_with_confidence events q = (Some e, str ''keyword'')"
    by (simp add: match_with_confidence_def keyword_match_def)
  moreover from f(1,4,5) have "\<forall>x\<in>set events. ?c x \<le> ?c e" by auto
  ultimately show "\<exists>before e after.
               events = before @ e # after \<and>
               match_with_confidence events q = (Some e, str ''keyword'') \<and>
               3 \<le> ?c e \<and> (\<forall>x\<in>set events. ?c x \<le> ?c e) \<and> (\<forall>x\<in>set before. ?c x < ?c e)"
    using f(1,3,4) by blast
next
  let ?c = "common_count (split (lower q))"
  assume "\<forall>e\<in>set events. ?c e < 3"
  then have "\<forall>e\<in>set events. \<not> (3 \<le> ?c e \<and> 0 < ?c e)" by auto
  then have "keyword_loop (split (lower q)) None 0 events = None"
    by (rule keyword_loop_keeps)
  with assms show "match_with_confidence events q = (None, str ''none'')"
    by (simp add: match_with_confidence_def keyword_match_def)
next
  fix e
  show "common_count (split (lower q)) e =
          card (set (split (lower q)) \<inter> set (split (lower (meeting_name e))))"
    by (simp add: common_count_def)
qed

theorem keyword_stage_maximum_witness:
  "\<not> is_blank (str ''2026 Denver June ASCO'') \<and>
   exact_partial_match ALL_EVENTS (str ''2026 Denver June ASCO'') = None \<and>
   normalized_match ALL_EVENTS (str ''2026 Denver June ASCO'') = None \<and>
   common_count (split (lower (str ''2026 Denver June ASCO''))) (ALL_EVENTS ! 35) = 3 \<and>
   list_all (\<lambda>x. common_count (split (lower (str ''2026 Denver June ASCO''))) x \<le> 3) ALL_EVENTS \<and>
   meeting_name (ALL_EVENTS ! 35) = str ''2026 ASCO Direct Denver'' \<and>
   match_with_confidence ALL_EVENTS (str ''2026 Denver June ASCO'') =
     (Some (ALL_EVENTS ! 35), str ''keyword'') \<and>
   \<not> is_blank (str ''NonExistent Event 2099'') \<and>
   exact_partial_match ALL_EVENTS (str ''NonExistent Event 2099'') = None \<and>
   normalized_match ALL_EVENTS (str ''NonExistent Event 2099'') = None \<and>
   list_all (\<lambda>e. common_count (split (lower (str ''NonExistent Event 2099''))) e < 3) ALL_EVENTS \<and>
   match_with_confidence ALL_EVENTS (str ''NonExistent Event 2099'') = (None, str ''none'')"
proof -
  let ?c = "common_count (split (lower (str ''2026 Denver June ASCO'')))"
  have "ALL_EVENTS ! 35 \<in> set ALL_EVENTS"
    by (rule nth_mem) (simp add: length_ALL_EVENTS)
  with june_query_count have ex: "\<exists>e\<in>set ALL_EVENTS. 3 \<le> ?c e"
    by (intro bexI [of _ "ALL_EVENTS ! 35"]) simp_all
  from june_query have h: "\<not> is_blank (str ''2026 Denver June ASCO'')"
      "exact_partial_match ALL_EVENTS (str ''2026 Denver June ASCO'') = None"
      "normalized_match ALL_EVENTS (str ''2026 Denver June ASCO'') = None"
    by simp_all
  from keyword_stage_maximum [OF h] ex
  obtain e where e: "match_with_confidence ALL_EVENTS (str ''2026 Denver June ASCO'') =
        (Some e, str ''keyword'')" "\<forall>x\<in>set ALL_EVENTS. ?c x \<le> ?c e"
    by blast
  from e(1) june_query_result have "e = ALL_EVENTS ! 35" by simp
  with e(2) june_query_count have le: "list_all (\<lambda>x. ?c x \<le> 3) ALL_EVENTS"
    by (simp add: list_all_iff)
  from unknown_query have u: "\<not> is_blank (str ''NonExistent Event 2099'')"
      "exact_partial_match ALL_EVENTS (str ''NonExistent Event 2099'') = None"
      "normalized_match ALL_EVENTS (str ''NonExistent Event 2099'') = None"
    by simp_all
  from keyword_stage_maximum [OF u] unknown_query_counts
  have none: "match_with_confidence ALL_EVENTS (str ''NonExistent Event 2099'') =
      (None, str ''none'')"
    by blast
  from unknown_query_counts
  have lt: "list_all (\<lambda>e. common_count (split (lower (str ''NonExistent Event 2099''))) e < 3)
      ALL_EVENTS"
    by (simp add: list_all_iff)
  from h u june_query_count le denver_2026_name june_query_result lt none show ?thesis
    by blast
qed

text \<open>
  Claim C8. When stage 1 finds nothing on a query that is not blank, stage 2 returns, with
  confidence \<open>normalized\<close>, the first event whose normalized name contains the normalized
  query or is contained in it. Normalization lowercases, replaces the en dash and the em
  dash by a hyphen, rewrites \<open>best of asco\<close> to \<open>asco direct\<close>, then deletes \<open>best of\<close> and
  \<open>best\<close>, then joins the whitespace-separated words by single spaces. On the catalog of
  the program, which stores \<open>2026 ASCO Direct Denver\<close>, the query
  \<open>2026 Best of ASCO Denver\<close> is matched to that event with confidence \<open>normalized\<close>.
\<close>

theorem normalized_stage_match:
  "(\<not> is_blank q \<and> exact_partial_match events q = None \<longrightarrow>
      (\<forall>before e after.
          events = before @ e # after \<and>
          (\<forall>x\<in>set before.
              \<not> (is_in (normalize_name q) (normalize_name (meeting_name x)) \<or>
                 is_in (normalize_name (meeting_name x)) (normalize_name q))) \<and>
          (is_in (normalize_name q) (normalize_name (meeting_name e)) \<or>
           is_in (normalize_name (meeting_name e)) (normalize_name q))
          \<longrightarrow> match_with_confidence events q = (Some e, str ''normalized''))) \<and>
   normalize_name s =
     join (str '' '')
       (split
          (replace
             (replace
                (replace
                   (replace (replace (lower s) [8211] (str ''-'')) [8212] (str ''-''))
                   (str ''best of asco'') (str ''asco direct''))
                (str ''best of'') [])
             (str ''best'') [])) \<and>
   normalize_name (str ''2026 Best of ASCO Denver'') = str ''2026 asco direct denver'' \<and>
   normalize_name (str ''2026 ASCO Direct Denver'') = str ''2026 asco direct denver'' \<and>
   normalize_name (str ''2026  Best of ASCO '' @ [8211] @ str '' GI '' @ [8212] @ str ''  Best Day'')
     = str ''2026 asco direct - gi - day'' \<and>
   meeting_name (ALL_EVENTS ! 35) = str ''2026 ASCO Direct Denver'' \<and>
   match_with_confidence ALL_EVENTS (str ''2026 Best of ASCO Denver'') =
     (Some (ALL_EVENTS ! 35), str ''normalized'')"
proof -
  have stage: "match_with_confidence events q = (Some e, str ''normalized'')"
    if "\<not> is_blank q" and "exact_partial_match events q = None"
      and "events = before @ e # after"
      and "\<forall>x\<in>set before.
              \<not> (is_in (normalize_name q) (normalize_name (meeting_name x)) \<or>
                 is_in (normalize_name (meeting_name x)) (normalize_name q))"
      and "is_in (normalize_name q) (normalize_name (meeting_name e)) \<or>
           is_in (normalize_name (meeting_name e)) (normalize_name q)"
    for before e after
  proof -
    from that(4,5) have "normalized_loop (normalize_name q) (before @ e # after) = Some e"
      by (rule normalized_loop_first)
    with that(1,2,3) show ?thesis
      by (simp add: match_with_confidence_def normalized_match_def)
  qed
  have order: "normalize_name s =
     join (str '' '')
       (split
          (replace
             (replace
                (replace
                   (replace (replace (lower s) [8211] (str ''-'')) [8212] (str ''-''))
                   (str ''best of asco'') (str ''asco direct''))
                (str ''best of'') [])
             (str ''best'') []))"
    by (simp add: normalize_name_def Let_def)
  from stage order normalize_examples denver_2026_name best_of_result show ?thesis
    by blast
qed

theorem normalized_stage_match_witness:
  "\<not> is_blank (str ''2026 Best of ASCO Denver'') \<and>
   exact_partial_match ALL_EVENTS (str ''2026 Best of ASCO Denver'') = None \<and>
   is_in (normalize_name (str ''2026 Best of ASCO Denver''))
     (normalize_name (meeting_name (ALL_EVENTS ! 35))) \<and>
   match_with_confidence ALL_EVENTS (str ''2026 Best of ASCO Denver'') =
     (Some (ALL_EVENTS ! 35), str ''normalized'')"
proof -
  have split: "ALL_EVENTS = take 35 ALL_EVENTS @ (ALL_EVENTS ! 35) # drop 36 ALL_EVENTS"
    using id_take_nth_drop [of 35 ALL_EVENTS] by (simp add: length_ALL_EVENTS)
  from normalized_stage_match [of "str ''2026 Best of ASCO Denver''" ALL_EVENTS "[]"]
  have "\<not> is_blank (str ''2026 Best of ASCO Denver'') \<and>
        exact_partial_match ALL_EVENTS (str ''2026 Best of ASCO Denver'') = None \<longrightarrow>
      (\<forall>before e after.
          ALL_EVENTS = before @ e # after \<and>
          (\<forall>x\<in>set before.
              \<not> (is_in (normalize_name (str ''2026 Best of ASCO Denver''))
                    (normalize_name (meeting_name x)) \<or>
                 is_in (normalize_name (meeting_name x))
                    (normalize_name (str ''2026 Best of ASCO Denver'')))) \<and>
          (is_in (normalize_name (str ''2026 Best of ASCO Denver''))
             (normalize_name (meeting_name e)) \<or>
           is_in (normalize_name (meeting_name e))
             (normalize_name (str ''2026 Best of ASCO Denver'')))
          \<longrightarrow> match_with_confidence ALL_EVENTS (str ''2026 Best of ASCO Denver'') =
                (Some e, str ''normalized''))"
    by (rule conjunct1)
  with best_of_query split best_of_not_before best_of_hit
  have "match_with_confidence ALL_EVENTS (str ''2026 Best of ASCO Denver'') =
          (Some (ALL_EVENTS ! 35), str ''normalized'')"
    by blast
  with best_of_query best_of_hit show ?thesis by blast
qed

text \<open>
  Claim C10. For a query that is empty or made of whitespace only, \<open>match_with_confidence\<close>
  returns \<open>(None, "none")\<close> and \<open>match_event\<close> returns \<open>None\<close>, whatever the catalog
  is; the empty string and the string of three spaces are such queries. The answer comes
  from the guard and not from a scan: stage 1 alone, on the empty query, would return the
  first event of the catalog.
\<close>

theorem blank_query_returns_none:
  "((\<forall>c\<in>set q. is_space c) \<longrightarrow>
      match_with_confidence events q = (None, str ''none'') \<and> match_event events q = None) \<and>
   match_with_confidence events (str '''') = (None, str ''none'') \<and>
   match_with_confidence events (str ''   '') = (None, str ''none'') \<and>
   match_event events (str '''') = None \<and>
   match_event events (str ''   '') = None \<and>
   exact_partial_match (e # events) (str '''') = Some e"
proof -
  have general: "match_with_confidence events q = (None, str ''none'') \<and> match_event events q = None"
    if "\<forall>c\<in>set q. is_space c"
    using that by (simp add: match_with_confidence_def match_event_def is_blank_iff)
  have scan: "exact_partial_match (e # events) (str '''') = Some e"
    by (simp add: exact_partial_match_def str_def lower_def Let_def is_in_empty)
  from general scan blank_examples show ?thesis
    by (simp add: match_with_confidence_def match_event_def)
qed

theorem blank_query_returns_none_witness:
  "is_space 32 \<and> is_space 9 \<and> is_space 160 \<and> is_space 10 \<and>
   match_with_confidence ALL_EVENTS [32, 9, 160, 10] = (None, str ''none'') \<and>
   match_event ALL_EVENTS [32, 9, 160, 10] = None"
  using blank_query_returns_none [of "[32, 9, 160, 10]" ALL_EVENTS] mixed_whitespace
  by simp

end
